theory Spec2Isabelle
  imports Main
begin

unbundle bit_operations_syntax

section \<open>The collaborators of \<open>SSHDownloader\<close>\<close>

text \<open>
  \<open>edge_script/snapshot.py\<close> drives three collaborators: the remote-shell client
  (paramiko), the file-copy client (scp) and the local file system (\<open>os\<close>), and it
  writes to a logger and sleeps between attempts. What a collaborator answers is not
  decided by the program, so it is a parameter of the model (the record \<open>env\<close> below);
  what the program does to a collaborator is recorded, call by call, in a trace.

  Every exception here is a subclass of \<open>Exception\<close>, so the handler
  \<open>except Exception\<close> of the source catches each of them. \<open>OSError_c\<close> is \<open>OSError\<close>
  (\<open>IOError\<close> is its alias) with its subclasses other than \<open>ConnectionError\<close>;
  \<open>Exception_c\<close> is the class \<open>Exception\<close> itself, which line 97 instantiates.
  \<open>CommandError_c\<close> and \<open>TransferError_c\<close> are classes named by the documentation
  of the error taxonomy only: no statement of the source constructs one.
\<close>

datatype exc_class =
    Exception_c
  | AttributeError_c
  | TypeError_c
  | UnicodeDecodeError_c
  | OSError_c
  | ConnectionError_c
  | SSHException_c
  | SCPException_c
  | CommandError_c
  | TransferError_c

datatype exc_msg =
    Msg string
  | Command_failed_with_exit_status int
  | NoneType_has_no_attribute string

datatype exn = Exn (exn_class: exc_class) (exn_msg: exc_msg)

text \<open>\<open>except IOError\<close> (line 114) and \<open>except SCPException\<close> (line 163).\<close>

definition is_IOError :: "exn \<Rightarrow> bool" where
  "is_IOError e = (exn_class e = OSError_c \<or> exn_class e = ConnectionError_c)"

definition is_SCPException :: "exn \<Rightarrow> bool" where
  "is_SCPException e = (exn_class e = SCPException_c)"

type_synonym handle = nat

text \<open>A decoded text is a Python \<open>str\<close>: a sequence of code points.\<close>

type_synonym pystr = "nat list"

datatype log_level = INFO | WARNING | ERROR

text \<open>One constructor for each message of the source, with the values it formats.\<close>

datatype log_text =
    Attempting_SSH_connection int int
  | SSH_connection_established
  | SSH_connection_failed int exn
  | SSH_connection_closed
  | Error_closing_SSH_connection exn
  | Executing_command int string
  | Command_produced_stderr pystr
  | Command_execution_failed int exn
  | Error_checking_remote_file_existence exn
  | Remote_file_does_not_exist string
  | Attempting_download int string string
  | Download_completed_and_verified
  | File_size_mismatch "nat option" nat
  | Downloaded_file_not_found
  | SCP_download_failed int exn
  | Download_failed int exn

datatype event =
    Log log_level log_text
  | New_client handle
  | Client_close handle
  | Exec_command handle string
  | Open_sftp handle
  | Sftp_stat string
  | Sftp_close
  | Scp_get handle string string
  | Os_remove string
  | Sleep nat

text \<open>
  The attributes \<open>sftp.stat\<close> returns; paramiko leaves a field \<open>None\<close> when the
  server does not send it.
\<close>

record stat_attrs =
  st_mode :: "nat option"
  st_size :: "nat option"

text \<open>
  One file-transfer sub-channel: whether \<open>open_sftp()\<close> raises, what \<open>stat\<close> of the
  path asked for answers, whether \<open>close()\<close> raises.
\<close>

record sftp_session =
  sftp_open :: "exn option"
  sftp_stat :: "exn + stat_attrs"
  sftp_close :: "exn option"

text \<open>
  One \<open>with SCPClient(...) as scp: scp.get(...)\<close>: \<open>scp_local\<close> is what is at the
  local path when the statement ends (\<open>None\<close>: no file, \<open>Some n\<close>: a file of \<open>n\<close>
  bytes), \<open>scp_error\<close> the exception it ends with, if any. A transfer that is cut
  has both: the bytes received so far and the exception.
\<close>

record scp_session =
  scp_local :: "nat option"
  scp_error :: "exn option"

text \<open>
  One \<open>exec_command\<close>: it raises (or \<open>recv_exit_status\<close> does), or it runs and gives
  the exit status and what \<open>stderr.read().decode()\<close> and \<open>stdout.read().decode()\<close>
  evaluate to.
\<close>

datatype exec_outcome =
    Exec_raises exn
  | Exec_ran int "exn + pystr" "exn + pystr"

text \<open>
  The behaviour of the collaborators during one call of a method. The loops ask it
  by attempt number; \<open>close_outcome\<close> is asked by handle.
\<close>

record env =
  connect_outcome :: "int \<Rightarrow> exn option"
  close_outcome :: "handle \<Rightarrow> exn option"
  exec_result :: "int \<Rightarrow> exec_outcome"
  exists_sftp :: sftp_session
  attempt_sftp :: "int \<Rightarrow> sftp_session"
  attempt_scp :: "int \<Rightarrow> scp_session"

section \<open>The downloader\<close>

text \<open>
  The fields of \<open>SSHDownloader.__init__\<close>, and with them the part of the world the
  methods change: the next fresh client object, the local files (path to size) and
  the trace. \<open>retry_delay\<close> is a number of seconds handed to \<open>time.sleep\<close>, which
  accepts no negative one: it is a natural number here. The local paths name regular
  files the process may delete.
\<close>

record state =
  hostname :: string
  port :: int
  username :: string
  password :: string
  max_retries :: int
  retry_delay :: nat
  ssh_client :: "handle option"
  next_handle :: handle
  local_files :: "string \<rightharpoonup> nat"
  trace :: "event list"

definition emit :: "event \<Rightarrow> state \<Rightarrow> state" where
  "emit ev s = s\<lparr>trace := trace s @ [ev]\<rparr>"

definition logger :: "log_level \<Rightarrow> log_text \<Rightarrow> state \<Rightarrow> state" where
  "logger l t s = emit (Log l t) s"

text \<open>\<open>time.sleep(self.retry_delay)\<close>\<close>

definition sleep :: "state \<Rightarrow> state" where
  "sleep s = emit (Sleep (retry_delay s)) s"

subsection \<open>\<open>close\<close> (lines 71-80)\<close>

definition close :: "env \<Rightarrow> state \<Rightarrow> (exn + unit) \<times> state" where
  "close env s =
     (case ssh_client s of
        None \<Rightarrow> (Inr (), s)
      | Some h \<Rightarrow>
          (let s1 = emit (Client_close h) s;
               s2 = (case close_outcome env h of
                       None \<Rightarrow> logger INFO SSH_connection_closed s1
                     | Some e \<Rightarrow> logger ERROR (Error_closing_SSH_connection e) s1)
           in (Inr (), s2\<lparr>ssh_client := None\<rparr>)))"

subsection \<open>\<open>connect\<close> (lines 44-69)\<close>

text \<open>
  \<open>for attempt in range(1, self.max_retries + 1)\<close> runs over the list
  \<open>[1..max_retries]\<close>. Line 51 stores the new client object before anything of the
  attempt can fail. A loop that runs out returns \<open>None\<close>.
\<close>

fun connect_loop :: "env \<Rightarrow> int list \<Rightarrow> state \<Rightarrow> (exn + unit) \<times> state" where
  "connect_loop env [] s = (Inr (), s)"
| "connect_loop env (attempt # rest) s =
     (let s1 = logger INFO (Attempting_SSH_connection attempt (max_retries s)) s;
          h = next_handle s1;
          s2 = emit (New_client h) (s1\<lparr>ssh_client := Some h, next_handle := Suc h\<rparr>)
      in case connect_outcome env attempt of
           None \<Rightarrow> (Inr (), logger INFO SSH_connection_established s2)
         | Some e \<Rightarrow>
             (let s3 = logger ERROR (SSH_connection_failed attempt e) s2
              in if attempt = max_retries s3 then (Inl e, s3)
                 else (case close env (sleep s3) of
                         (Inl e', s4) \<Rightarrow> (Inl e', s4)
                       | (Inr u, s4) \<Rightarrow> connect_loop env rest s4)))"

definition connect :: "env \<Rightarrow> state \<Rightarrow> (exn + unit) \<times> state" where
  "connect env s = connect_loop env [1..max_retries s] s"

subsection \<open>\<open>execute_command\<close> (lines 82-105)\<close>

text \<open>
  \<open>str.strip()\<close> removes the white space of Python at both ends: the code points
  for which \<open>str.isspace\<close> holds.
\<close>

definition is_space :: "nat \<Rightarrow> bool" where
  "is_space c =
     ((9 \<le> c \<and> c \<le> 13) \<or> (28 \<le> c \<and> c \<le> 32) \<or> c = 133 \<or> c = 160 \<or> c = 5760
      \<or> (8192 \<le> c \<and> c \<le> 8202) \<or> c = 8232 \<or> c = 8233 \<or> c = 8239 \<or> c = 8287
      \<or> c = 12288)"

definition strip :: "pystr \<Rightarrow> pystr" where
  "strip t = rev (dropWhile is_space (rev (dropWhile is_space t)))"

text \<open>The body of the \<open>try\<close> (lines 86-100).\<close>

definition exec_attempt ::
  "env \<Rightarrow> string \<Rightarrow> int \<Rightarrow> state \<Rightarrow> (exn + pystr option) \<times> state" where
  "exec_attempt env command attempt s =
     (let s1 = logger INFO (Executing_command attempt command) s
      in case ssh_client s1 of
           None \<Rightarrow>
             (Inl (Exn AttributeError_c (NoneType_has_no_attribute ''exec_command'')), s1)
         | Some h \<Rightarrow>
             (let s2 = emit (Exec_command h command) s1
              in case exec_result env attempt of
                   Exec_raises e \<Rightarrow> (Inl e, s2)
                 | Exec_ran exit_status err out \<Rightarrow>
                     (case err of
                        Inl e \<Rightarrow> (Inl e, s2)
                      | Inr err_text \<Rightarrow>
                          (let errors = strip err_text;
                               s3 = (if errors \<noteq> []
                                     then logger WARNING (Command_produced_stderr errors) s2
                                     else s2)
                           in if exit_status \<noteq> 0
                              then (Inl (Exn Exception_c
                                           (Command_failed_with_exit_status exit_status)), s3)
                              else (case out of
                                      Inl e \<Rightarrow> (Inl e, s3)
                                    | Inr out_text \<Rightarrow>
                                        (let output = strip out_text
                                         in (Inr (if output \<noteq> [] then Some output else None),
                                             s3)))))))"

fun exec_loop ::
  "env \<Rightarrow> string \<Rightarrow> int list \<Rightarrow> state \<Rightarrow> (exn + pystr option) \<times> state" where
  "exec_loop env command [] s = (Inr None, s)"
| "exec_loop env command (attempt # rest) s =
     (case exec_attempt env command attempt s of
        (Inr v, s1) \<Rightarrow> (Inr v, s1)
      | (Inl e, s1) \<Rightarrow>
          (let s2 = logger ERROR (Command_execution_failed attempt e) s1
           in if attempt = max_retries s2 then (Inl e, s2)
              else exec_loop env command rest (sleep s2)))"

definition execute_command ::
  "env \<Rightarrow> string \<Rightarrow> state \<Rightarrow> (exn + pystr option) \<times> state" where
  "execute_command env command s = exec_loop env command [1..max_retries s] s"

subsection \<open>\<open>remote_file_exists\<close> (lines 107-120)\<close>

text \<open>\<open>stat.S_ISREG\<close>: the file-type bits \<open>0o170000\<close> of the mode are \<open>0o100000\<close>.\<close>

definition S_ISREG :: "nat \<Rightarrow> bool" where
  "S_ISREG mode = (mode AND 61440 = 32768)"

text \<open>
  The inner \<open>try\<close> with its \<open>except IOError\<close> and its \<open>finally\<close> (lines 111-117),
  on a sub-channel that is open. An exception of \<open>sftp.close()\<close> in the \<open>finally\<close>
  replaces the value being returned. \<open>S_ISREG(None)\<close> is a \<open>TypeError\<close>.
\<close>

definition stat_is_regular :: "sftp_session \<Rightarrow> string \<Rightarrow> state \<Rightarrow> (exn + bool) \<times> state" where
  "stat_is_regular sftp remote_path s =
     (let s1 = emit (Sftp_stat remote_path) s;
          r = (case sftp_stat sftp of
                 Inl e \<Rightarrow> if is_IOError e then Inr False else Inl e
               | Inr file_stat \<Rightarrow>
                   (case st_mode file_stat of
                      None \<Rightarrow> Inl (Exn TypeError_c (Msg ''an integer is required''))
                    | Some mode \<Rightarrow> Inr (S_ISREG mode)));
          s2 = emit Sftp_close s1
      in case sftp_close sftp of
           Some e \<Rightarrow> (Inl e, s2)
         | None \<Rightarrow> (r, s2))"

definition remote_file_exists :: "env \<Rightarrow> string \<Rightarrow> state \<Rightarrow> (exn + bool) \<times> state" where
  "remote_file_exists env remote_path s =
     (let tried =
            (case ssh_client s of
               None \<Rightarrow>
                 (Inl (Exn AttributeError_c (NoneType_has_no_attribute ''open_sftp'')), s)
             | Some h \<Rightarrow>
                 (let s1 = emit (Open_sftp h) s
                  in case sftp_open (exists_sftp env) of
                       Some e \<Rightarrow> (Inl e, s1)
                     | None \<Rightarrow> stat_is_regular (exists_sftp env) remote_path s1))
      in case tried of
           (Inl e, s2) \<Rightarrow>
             (Inr False, logger ERROR (Error_checking_remote_file_existence e) s2)
         | (Inr b, s2) \<Rightarrow> (Inr b, s2))"

subsection \<open>\<open>download_file\<close> (lines 122-174)\<close>

text \<open>
  Lines 135-137: the size of the remote file, on a sub-channel of its own. Its
  \<open>close\<close> is not in a \<open>finally\<close>: when \<open>stat\<close> raises, the sub-channel is left open.
\<close>

definition stat_remote_size ::
  "sftp_session \<Rightarrow> handle \<Rightarrow> string \<Rightarrow> state \<Rightarrow> (exn + nat option) \<times> state" where
  "stat_remote_size sftp h remote_path s =
     (let s1 = emit (Open_sftp h) s
      in case sftp_open sftp of
           Some e \<Rightarrow> (Inl e, s1)
         | None \<Rightarrow>
             (let s2 = emit (Sftp_stat remote_path) s1
              in case sftp_stat sftp of
                   Inl e \<Rightarrow> (Inl e, s2)
                 | Inr file_stat \<Rightarrow>
                     (let s3 = emit Sftp_close s2
                      in case sftp_close sftp of
                           Some e \<Rightarrow> (Inl e, s3)
                         | None \<Rightarrow> (Inr (st_size file_stat), s3))))"

text \<open>Lines 140-143: the transfer; it decides what is at the local path afterwards.\<close>

definition scp_get ::
  "scp_session \<Rightarrow> handle \<Rightarrow> string \<Rightarrow> string \<Rightarrow> state \<Rightarrow> (exn + unit) \<times> state" where
  "scp_get scp h remote_path local_path s =
     (let s1 = emit (Scp_get h remote_path local_path) s;
          s2 = s1\<lparr>local_files := (local_files s1)(local_path := scp_local scp)\<rparr>
      in case scp_error scp of
           Some e \<Rightarrow> (Inl e, s2)
         | None \<Rightarrow> (Inr (), s2))"

text \<open>
  Lines 146-157: the verification. \<open>True\<close>: line 150 returns; \<open>False\<close>: the control
  reaches line 159.
\<close>

definition verify_local :: "nat option \<Rightarrow> string \<Rightarrow> state \<Rightarrow> bool \<times> state" where
  "verify_local remote_size local_path s =
     (case local_files s local_path of
        Some local_size \<Rightarrow>
          if Some local_size = remote_size
          then (True, logger INFO Download_completed_and_verified s)
          else
            (let s1 = logger ERROR (File_size_mismatch remote_size local_size) s;
                 s2 = emit (Os_remove local_path) s1
             in (False, s2\<lparr>local_files := (local_files s2)(local_path := None)\<rparr>))
      | None \<Rightarrow> (False, logger ERROR Downloaded_file_not_found s))"

text \<open>
  The body of the \<open>try\<close> (lines 130-162). \<open>Inr (Some b)\<close>: the body returns \<open>b\<close>;
  \<open>Inr None\<close>: it ends and the loop goes on; \<open>Inl e\<close>: it raises \<open>e\<close>.
\<close>

definition download_attempt ::
  "env \<Rightarrow> string \<Rightarrow> string \<Rightarrow> int \<Rightarrow> state \<Rightarrow> (exn + bool option) \<times> state" where
  "download_attempt env remote_path local_path attempt s =
     (let s1 = logger INFO (Attempting_download attempt remote_path local_path) s
      in case ssh_client s1 of
           None \<Rightarrow> (Inl (Exn AttributeError_c (NoneType_has_no_attribute ''open_sftp'')), s1)
         | Some h \<Rightarrow>
             (case stat_remote_size (attempt_sftp env attempt) h remote_path s1 of
                (Inl e, s2) \<Rightarrow> (Inl e, s2)
              | (Inr remote_size, s2) \<Rightarrow>
                  (case scp_get (attempt_scp env attempt) h remote_path local_path s2 of
                     (Inl e, s3) \<Rightarrow> (Inl e, s3)
                   | (Inr u, s3) \<Rightarrow>
                       (case verify_local remote_size local_path s3 of
                          (True, s4) \<Rightarrow> (Inr (Some True), s4)
                        | (False, s4) \<Rightarrow>
                            if attempt = max_retries s4 then (Inr (Some False), s4)
                            else (Inr None, sleep s4)))))"

fun download_loop ::
  "env \<Rightarrow> string \<Rightarrow> string \<Rightarrow> int list \<Rightarrow> state \<Rightarrow> (exn + bool) \<times> state" where
  "download_loop env remote_path local_path [] s = (Inr False, s)"
| "download_loop env remote_path local_path (attempt # rest) s =
     (case download_attempt env remote_path local_path attempt s of
        (Inr (Some b), s1) \<Rightarrow> (Inr b, s1)
      | (Inr None, s1) \<Rightarrow> download_loop env remote_path local_path rest s1
      | (Inl e, s1) \<Rightarrow>
          (let s2 = (if is_SCPException e
                     then logger ERROR (SCP_download_failed attempt e) s1
                     else logger ERROR (Download_failed attempt e) s1)
           in if attempt = max_retries s2 then (Inl e, s2)
              else download_loop env remote_path local_path rest (sleep s2)))"

definition download_file ::
  "env \<Rightarrow> string \<Rightarrow> string \<Rightarrow> state \<Rightarrow> (exn + bool) \<times> state" where
  "download_file env remote_path local_path s =
     (case remote_file_exists env remote_path s of
        (Inl e, s1) \<Rightarrow> (Inl e, s1)
      | (Inr found, s1) \<Rightarrow>
          if \<not> found
          then (Inr False, logger ERROR (Remote_file_does_not_exist remote_path) s1)
          else download_loop env remote_path local_path [1..max_retries s1] s1)"

section \<open>Observations on a run\<close>

text \<open>
  A connection attempt is an iteration of the loop of \<open>connect\<close>; each creates one
  client object, so the attempts of a run are the \<open>New_client\<close> events of its trace.
  A transfer is a call of \<open>scp.get\<close>; an iteration of the loop of \<open>download_file\<close>
  starts with the log record of lines 130-132; a stat is a call of \<open>sftp.stat\<close>.
\<close>

fun is_new_client :: "event \<Rightarrow> bool" where
  "is_new_client (New_client h) = True"
| "is_new_client ev = False"

fun is_scp_get :: "event \<Rightarrow> bool" where
  "is_scp_get (Scp_get h r l) = True"
| "is_scp_get ev = False"

fun is_attempting_download :: "event \<Rightarrow> bool" where
  "is_attempting_download (Log l (Attempting_download a r p)) = True"
| "is_attempting_download ev = False"

fun is_sftp_stat :: "event \<Rightarrow> bool" where
  "is_sftp_stat (Sftp_stat p) = True"
| "is_sftp_stat ev = False"

definition connect_attempts :: "event list \<Rightarrow> nat" where
  "connect_attempts tr = length (filter is_new_client tr)"

definition transfers :: "event list \<Rightarrow> nat" where
  "transfers tr = length (filter is_scp_get tr)"

definition download_attempts :: "event list \<Rightarrow> nat" where
  "download_attempts tr = length (filter is_attempting_download tr)"

definition stats :: "event list \<Rightarrow> nat" where
  "stats tr = length (filter is_sftp_stat tr)"


text \<open>
  How one attempt of \<open>download_file\<close> ends on a session with a client, read off the
  behaviour of its sub-channel and of its transfer: it raises (the sub-channel or the
  transfer raises), it passes the verification (a local file of the size \<open>stat\<close>
  reported), or it fails the verification (no local file, or another size).
\<close>

datatype attempt_kind = Verified | Verification_failed | Raises exn

definition attempt_kind :: "env \<Rightarrow> int \<Rightarrow> attempt_kind" where
  "attempt_kind env a =
     (case sftp_open (attempt_sftp env a) of
        Some e \<Rightarrow> Raises e
      | None \<Rightarrow>
          (case sftp_stat (attempt_sftp env a) of
             Inl e \<Rightarrow> Raises e
           | Inr file_stat \<Rightarrow>
               (case sftp_close (attempt_sftp env a) of
                  Some e \<Rightarrow> Raises e
                | None \<Rightarrow>
                    (case scp_error (attempt_scp env a) of
                       Some e \<Rightarrow> Raises e
                     | None \<Rightarrow>
                         (case scp_local (attempt_scp env a) of
                            None \<Rightarrow> Verification_failed
                          | Some local_size \<Rightarrow>
                              if Some local_size = st_size file_stat then Verified
                              else Verification_failed)))))"


section \<open>Concrete downloaders and collaborators\<close>

text \<open>\<open>SSHDownloader.__init__\<close> (lines 20-35), in a world with no local file yet.\<close>

definition SSHDownloader_init :: "string \<Rightarrow> int \<Rightarrow> string \<Rightarrow> string \<Rightarrow> int \<Rightarrow> nat \<Rightarrow> state" where
  "SSHDownloader_init h p u pw mr rd =
     \<lparr>hostname = h, port = p, username = u, password = pw, max_retries = mr,
      retry_delay = rd, ssh_client = None, next_handle = 0, local_files = Map.empty,
      trace = []\<rparr>"

text \<open>
  A downloader with three retries, before \<open>connect\<close> and with a client; and
  collaborators with which everything succeeds: the remote path is a regular file
  (mode \<open>0o100644\<close>) of 100 bytes and the transfer delivers 100 bytes.
\<close>

definition pi3 :: state where
  "pi3 = SSHDownloader_init ''192.168.0.105'' 22 ''pi'' ''secret'' 3 5"

definition connected3 :: state where
  "connected3 = pi3\<lparr>ssh_client := Some 0, next_handle := 1\<rparr>"

definition quiet_sftp :: sftp_session where
  "quiet_sftp = \<lparr>sftp_open = None,
                  sftp_stat = Inr \<lparr>st_mode = Some 33188, st_size = Some 100\<rparr>,
                  sftp_close = None\<rparr>"

definition quiet_env :: env where
  "quiet_env = \<lparr>connect_outcome = (\<lambda>a. None), close_outcome = (\<lambda>h. None),
                 exec_result = (\<lambda>a. Exec_ran 0 (Inr []) (Inr [])),
                 exists_sftp = quiet_sftp, attempt_sftp = (\<lambda>a. quiet_sftp),
                 attempt_scp = (\<lambda>a. \<lparr>scp_local = Some 100, scp_error = None\<rparr>)\<rparr>"

text \<open>Failures of the remote-shell client.\<close>

definition refused :: exn where
  "refused = Exn ConnectionError_c (Msg ''Connection refused'')"

definition auth_failed :: exn where
  "auth_failed = Exn SSHException_c (Msg ''Authentication failed.'')"

definition close_broken :: exn where
  "close_broken = Exn OSError_c (Msg ''Socket is closed'')"

text \<open>
  Sub-channels whose \<open>stat\<close> answers with a directory (mode \<open>0o040755\<close>), with
  \<open>IOError\<close> for a missing path, and with another exception.
\<close>

definition not_found :: exn where
  "not_found = Exn OSError_c (Msg ''No such file'')"

definition directory_sftp :: sftp_session where
  "directory_sftp = quiet_sftp\<lparr>sftp_stat := Inr \<lparr>st_mode = Some 16877, st_size = Some 4096\<rparr>\<rparr>"

definition missing_sftp :: sftp_session where
  "missing_sftp = quiet_sftp\<lparr>sftp_stat := Inl not_found\<rparr>"

definition broken_sftp :: sftp_session where
  "broken_sftp = quiet_sftp\<lparr>sftp_stat := Inl auth_failed\<rparr>"




text \<open>A transfer that is cut after 40 of 100 bytes, and one that ends 40 bytes short.\<close>

definition transfer_cut :: exn where
  "transfer_cut = Exn SCPException_c (Msg ''Error receiving, socket.timeout'')"

definition cut_scp :: scp_session where
  "cut_scp = \<lparr>scp_local = Some 40, scp_error = Some transfer_cut\<rparr>"


section \<open>Basic facts\<close>

lemma emit_simps [simp]:
  "max_retries (emit ev s) = max_retries s"
  "retry_delay (emit ev s) = retry_delay s"
  "ssh_client (emit ev s) = ssh_client s"
  "next_handle (emit ev s) = next_handle s"
  "local_files (emit ev s) = local_files s"
  "trace (emit ev s) = trace s @ [ev]"
  by (simp_all add: emit_def)

lemma logger_simps [simp]:
  "max_retries (logger l t s) = max_retries s"
  "retry_delay (logger l t s) = retry_delay s"
  "ssh_client (logger l t s) = ssh_client s"
  "next_handle (logger l t s) = next_handle s"
  "local_files (logger l t s) = local_files s"
  "trace (logger l t s) = trace s @ [Log l t]"
  by (simp_all add: logger_def)

lemma sleep_simps [simp]:
  "max_retries (sleep s) = max_retries s"
  "retry_delay (sleep s) = retry_delay s"
  "ssh_client (sleep s) = ssh_client s"
  "next_handle (sleep s) = next_handle s"
  "local_files (sleep s) = local_files s"
  "trace (sleep s) = trace s @ [Sleep (retry_delay s)]"
  by (simp_all add: sleep_def)

lemma connect_attempts_simps [simp]:
  "connect_attempts [] = 0"
  "connect_attempts (ev # tr) = (if is_new_client ev then 1 else 0) + connect_attempts tr"
  "connect_attempts (tr @ tr') = connect_attempts tr + connect_attempts tr'"
  by (simp_all add: connect_attempts_def)

lemma counters_simps [simp]:
  "transfers [] = 0"
  "transfers (ev # tr) = (if is_scp_get ev then 1 else 0) + transfers tr"
  "transfers (tr @ tr') = transfers tr + transfers tr'"
  "download_attempts [] = 0"
  "download_attempts (ev # tr) = (if is_attempting_download ev then 1 else 0) + download_attempts tr"
  "download_attempts (tr @ tr') = download_attempts tr + download_attempts tr'"
  "stats [] = 0"
  "stats (ev # tr) = (if is_sftp_stat ev then 1 else 0) + stats tr"
  "stats (tr @ tr') = stats tr + stats tr'"
  by (simp_all add: transfers_def download_attempts_def stats_def)

text \<open>\<open>close\<close> always returns, and it clears the client.\<close>

lemma close_result [simp]: "fst (close env s) = Inr ()"
  by (simp add: close_def Let_def split: option.splits)

lemma close_fields [simp]:
  "max_retries (snd (close env s)) = max_retries s"
  "retry_delay (snd (close env s)) = retry_delay s"
  "ssh_client (snd (close env s)) = None"
  "next_handle (snd (close env s)) = next_handle s"
  "local_files (snd (close env s)) = local_files s"
  by (simp_all add: close_def Let_def split: option.splits)

lemma close_attempts [simp]:
  "connect_attempts (trace (snd (close env s))) = connect_attempts (trace s)"
  by (simp add: close_def Let_def split: option.splits)

lemma close_case [simp]:
  "(case close env s of (Inl e, s4) \<Rightarrow> f e s4 | (Inr u, s4) \<Rightarrow> g u s4) = g () (snd (close env s))"
proof (cases "close env s")
  case (Pair r s4)
  with close_result[of env s] show ?thesis by simp
qed

section \<open>\<open>connect\<close>: the number of attempts\<close>

text \<open>
  The loop over \<open>pre @ k # post\<close> stops at \<open>k\<close> when no attempt of \<open>pre\<close> succeeds or
  is the last one, and \<open>k\<close> succeeds or is the last one.
\<close>

lemma connect_loop_stops:
  assumes "\<forall>a\<in>set pre. connect_outcome env a \<noteq> None \<and> a \<noteq> max_retries s"
      and "connect_outcome env k = None \<or> k = max_retries s"
  shows "fst (connect_loop env (pre @ k # post) s) =
           (case connect_outcome env k of None \<Rightarrow> Inr () | Some e \<Rightarrow> Inl e)
         \<and> connect_attempts (trace (snd (connect_loop env (pre @ k # post) s))) =
             connect_attempts (trace s) + length pre + 1
         \<and> ssh_client (snd (connect_loop env (pre @ k # post) s)) \<noteq> None"
  using assms
proof (induction pre arbitrary: s)
  case Nil
  then show ?case
    by (auto simp: Let_def split: option.splits)
next
  case (Cons a pre)
  obtain e where e: "connect_outcome env a = Some e" using Cons.prems by auto
  have ne: "a \<noteq> max_retries s" using Cons.prems by auto
  define s4 where "s4 = snd (close env (sleep (logger ERROR (SSH_connection_failed a e)
        (emit (New_client (next_handle s))
           (logger INFO (Attempting_SSH_connection a (max_retries s)) s
              \<lparr>ssh_client := Some (next_handle s), next_handle := Suc (next_handle s)\<rparr>)))))"
  have s4: "max_retries s4 = max_retries s"
    "connect_attempts (trace s4) = connect_attempts (trace s) + 1"
    by (simp_all add: s4_def)
  have step: "connect_loop env ((a # pre) @ k # post) s = connect_loop env (pre @ k # post) s4"
    using e ne by (simp add: Let_def s4_def)
  have "\<forall>a\<in>set pre. connect_outcome env a \<noteq> None \<and> a \<noteq> max_retries s4"
    using Cons.prems s4 by auto
  moreover have "connect_outcome env k = None \<or> k = max_retries s4"
    using Cons.prems s4 by auto
  ultimately show ?case using Cons.IH[of s4] s4 step by simp
qed



section \<open>\<open>connect\<close>: the client of a failed attempt\<close>

text \<open>
  Claim C9, at a host that refuses all three attempts. The clients of attempts 1 and 2
  are closed by line 69; the client of attempt 3 is not closed, and \<open>ssh_client\<close> still
  holds it when the exception leaves \<open>connect\<close>: line 67 raises before line 69.
\<close>

theorem connect_final_failure_keeps_handle:
  "fst (connect (quiet_env\<lparr>connect_outcome := (\<lambda>a. Some refused)\<rparr>) pi3) = Inl refused
   \<and> ssh_client (snd (connect (quiet_env\<lparr>connect_outcome := (\<lambda>a. Some refused)\<rparr>) pi3)) = Some 2
   \<and> filter (\<lambda>ev. ev \<in> {Client_close 0, Client_close 1, Client_close 2})
        (trace (snd (connect (quiet_env\<lparr>connect_outcome := (\<lambda>a. Some refused)\<rparr>) pi3)))
       = [Client_close 0, Client_close 1]"
  by (simp add: connect_def pi3_def SSHDownloader_init_def quiet_env_def Let_def close_def
        emit_def logger_def sleep_def refused_def upto.simps)

text \<open>
  A failed attempt that is not the last one is followed by \<open>close\<close> (line 69): the next
  attempt starts without a client, and the client of the failed attempt is closed.
\<close>

lemma connect_retry_discards:
  assumes "connect_outcome env a = Some e" and "a \<noteq> max_retries s"
  shows "\<exists>s'. connect_loop env (a # rest) s = connect_loop env rest s'
              \<and> ssh_client s' = None
              \<and> Client_close (next_handle s) \<in> set (trace s')"
proof -
  let ?s3 = "logger ERROR (SSH_connection_failed a e)
               (emit (New_client (next_handle s))
                  (logger INFO (Attempting_SSH_connection a (max_retries s)) s
                     \<lparr>ssh_client := Some (next_handle s), next_handle := Suc (next_handle s)\<rparr>))"
  let ?s4 = "snd (close env (sleep ?s3))"
  have "connect_loop env (a # rest) s = connect_loop env rest ?s4"
    using assms by (simp add: Let_def)
  moreover have "Client_close (next_handle s) \<in> set (trace ?s4)"
    by (simp add: close_def Let_def split: option.splits)
  ultimately show ?thesis by (intro exI[of _ ?s4]) simp
qed

section \<open>\<open>close\<close>\<close>

text \<open>
  Claim C7. \<open>close\<close> never raises and always leaves \<open>ssh_client\<close> cleared; a second
  \<open>close\<close> does nothing; on a session that was never connected it does nothing; an
  error of the shutdown is logged; and a \<open>connect\<close> after it whose first attempt
  succeeds returns with a client.
\<close>

theorem close_never_raises:
  "fst (close env s) = Inr ()
   \<and> ssh_client (snd (close env s)) = None
   \<and> close env (snd (close env s)) = (Inr (), snd (close env s))
   \<and> (ssh_client s = None \<longrightarrow> close env s = (Inr (), s))
   \<and> (\<forall>h e. ssh_client s = Some h \<and> close_outcome env h = Some e \<longrightarrow>
         Log ERROR (Error_closing_SSH_connection e) \<in> set (trace (snd (close env s))))
   \<and> (1 \<le> max_retries s \<and> connect_outcome env' 1 = None \<longrightarrow>
         fst (connect env' (snd (close env s))) = Inr ()
         \<and> ssh_client (snd (connect env' (snd (close env s)))) \<noteq> None)"
proof (intro conjI impI allI)
  show "close env (snd (close env s)) = (Inr (), snd (close env s))"
    by (simp add: close_def[of env "snd (close env s)"])
  show "close env s = (Inr (), s)" if "ssh_client s = None"
    using that by (simp add: close_def)
  show "Log ERROR (Error_closing_SSH_connection e) \<in> set (trace (snd (close env s)))"
    if "ssh_client s = Some h \<and> close_outcome env h = Some e" for h e
    using that by (simp add: close_def Let_def)
next
  assume a: "1 \<le> max_retries s \<and> connect_outcome env' 1 = None"
  let ?s = "snd (close env s)"
  have split: "[1..max_retries ?s] = [] @ 1 # [2..max_retries s]"
    using a by (simp add: upto_rec1)
  have "fst (connect_loop env' ([] @ 1 # [2..max_retries s]) ?s) = Inr ()
        \<and> ssh_client (snd (connect_loop env' ([] @ 1 # [2..max_retries s]) ?s)) \<noteq> None"
    using connect_loop_stops[of "[]" env' ?s 1 "[2..max_retries s]"] a by simp
  then show "fst (connect env' ?s) = Inr ()" "ssh_client (snd (connect env' ?s)) \<noteq> None"
    unfolding connect_def split by simp_all
qed simp_all

text \<open>A shutdown that fails on a connected session, and a session never connected.\<close>

theorem close_never_raises_witness:
  "fst (close (quiet_env\<lparr>close_outcome := (\<lambda>h. Some close_broken)\<rparr>) connected3) = Inr ()
   \<and> ssh_client (snd (close (quiet_env\<lparr>close_outcome := (\<lambda>h. Some close_broken)\<rparr>) connected3))
       = None
   \<and> Log ERROR (Error_closing_SSH_connection close_broken)
       \<in> set (trace (snd (close (quiet_env\<lparr>close_outcome := (\<lambda>h. Some close_broken)\<rparr>)
                              connected3)))
   \<and> close quiet_env pi3 = (Inr (), pi3)
   \<and> fst (connect quiet_env
            (snd (close (quiet_env\<lparr>close_outcome := (\<lambda>h. Some close_broken)\<rparr>) connected3)))
       = Inr ()"
  using close_never_raises[of "quiet_env\<lparr>close_outcome := (\<lambda>h. Some close_broken)\<rparr>"
          connected3 quiet_env]
        close_never_raises[of quiet_env pi3 quiet_env]
  by (simp add: connected3_def pi3_def SSHDownloader_init_def quiet_env_def)

section \<open>\<open>execute_command\<close>\<close>

lemma strip_decomp:
  "dropWhile is_space t =
     strip t @ rev (takeWhile is_space (rev (dropWhile is_space t)))"
proof -
  let ?d = "dropWhile is_space t"
  have "strip t @ rev (takeWhile is_space (rev ?d)) =
          rev (takeWhile is_space (rev ?d) @ dropWhile is_space (rev ?d))"
    by (simp only: strip_def rev_append)
  also have "\<dots> = rev (rev ?d)" by (simp only: takeWhile_dropWhile_id)
  also have "\<dots> = ?d" by simp
  finally show ?thesis by simp
qed

lemma strip_infix:
  "\<exists>pre suf. t = pre @ strip t @ suf \<and> (\<forall>c\<in>set pre. is_space c) \<and> (\<forall>c\<in>set suf. is_space c)"
proof -
  let ?d = "dropWhile is_space t"
  have "t = takeWhile is_space t @ ?d" by simp
  then have "t = takeWhile is_space t @ strip t @ rev (takeWhile is_space (rev ?d))"
    using strip_decomp[of t] by simp
  moreover have "\<forall>c\<in>set (takeWhile is_space t). is_space c"
    by (auto dest: set_takeWhileD)
  moreover have "\<forall>c\<in>set (rev (takeWhile is_space (rev ?d))). is_space c"
    by (auto dest: set_takeWhileD)
  ultimately show ?thesis by blast
qed

lemma dropWhile_all: "(\<forall>c\<in>set (dropWhile P xs). P c) \<longleftrightarrow> dropWhile P xs = []"
proof
  assume a: "\<forall>c\<in>set (dropWhile P xs). P c"
  show "dropWhile P xs = []"
  proof (rule ccontr)
    assume n: "dropWhile P xs \<noteq> []"
    then have "hd (dropWhile P xs) \<in> set (dropWhile P xs)" by simp
    with a hd_dropWhile[OF n] show False by blast
  qed
next
  assume "dropWhile P xs = []"
  then show "\<forall>c\<in>set (dropWhile P xs). P c" by (metis empty_iff list.set(1))
qed

lemma strip_blank: "strip t = [] \<longleftrightarrow> (\<forall>c\<in>set t. is_space c)"
proof -
  have "strip t = [] \<longleftrightarrow> (\<forall>c\<in>set (dropWhile is_space t). is_space c)"
    by (simp add: strip_def)
  also have "\<dots> \<longleftrightarrow> dropWhile is_space t = []" by (rule dropWhile_all)
  also have "\<dots> \<longleftrightarrow> (\<forall>c\<in>set t. is_space c)" by simp
  finally show ?thesis .
qed

lemma strip_ends:
  assumes "strip t \<noteq> []"
  shows "\<not> is_space (hd (strip t)) \<and> \<not> is_space (last (strip t))"
proof -
  let ?d = "dropWhile is_space t"
  let ?r = "dropWhile is_space (rev ?d)"
  have r: "?r \<noteq> []" using assms by (simp add: strip_def)
  have "last (strip t) = hd ?r" using r by (simp add: strip_def last_rev)
  then have l: "\<not> is_space (last (strip t))" using hd_dropWhile[OF r] by simp
  have d: "?d \<noteq> []" using strip_decomp[of t] assms by (metis append_is_Nil_conv)
  have "hd ?d = hd (strip t)" using strip_decomp[of t] assms by (metis hd_append2)
  then show ?thesis using l hd_dropWhile[OF d] by simp
qed

lemma exec_attempt_fields [simp]:
  "max_retries (snd (exec_attempt env command a s)) = max_retries s"
  "retry_delay (snd (exec_attempt env command a s)) = retry_delay s"
  "ssh_client (snd (exec_attempt env command a s)) = ssh_client s"
  "local_files (snd (exec_attempt env command a s)) = local_files s"
  by (simp_all add: exec_attempt_def Let_def split: option.splits exec_outcome.splits sum.splits)



lemma exec_attempt_trace_grows:
  "set (trace s) \<subseteq> set (trace (snd (exec_attempt env command a s)))"
  by (auto simp: exec_attempt_def Let_def split: option.splits exec_outcome.splits sum.splits)




section \<open>\<open>remote_file_exists\<close>\<close>

lemma sftp_fields [simp]:
  "max_retries (snd (stat_is_regular sftp p s)) = max_retries s"
  "retry_delay (snd (stat_is_regular sftp p s)) = retry_delay s"
  "ssh_client (snd (stat_is_regular sftp p s)) = ssh_client s"
  "next_handle (snd (stat_is_regular sftp p s)) = next_handle s"
  "local_files (snd (stat_is_regular sftp p s)) = local_files s"
  by (simp_all add: stat_is_regular_def Let_def split: option.splits)

lemma remote_file_exists_fields [simp]:
  "max_retries (snd (remote_file_exists env p s)) = max_retries s"
  "retry_delay (snd (remote_file_exists env p s)) = retry_delay s"
  "ssh_client (snd (remote_file_exists env p s)) = ssh_client s"
  "next_handle (snd (remote_file_exists env p s)) = next_handle s"
  "local_files (snd (remote_file_exists env p s)) = local_files s"
  by (simp_all add: remote_file_exists_def Let_def case_prod_beta split: option.splits sum.splits)

lemma remote_file_exists_counters [simp]:
  "transfers (trace (snd (remote_file_exists env p s))) = transfers (trace s)"
  "download_attempts (trace (snd (remote_file_exists env p s))) = download_attempts (trace s)"
  by (simp_all add: remote_file_exists_def stat_is_regular_def Let_def case_prod_beta
        split: option.splits sum.splits)

lemma remote_file_exists_value:
  "fst (remote_file_exists env remote_path s) =
     Inr (ssh_client s \<noteq> None \<and> sftp_open (exists_sftp env) = None
          \<and> (\<exists>attrs mode. sftp_stat (exists_sftp env) = Inr attrs
                \<and> st_mode attrs = Some mode \<and> S_ISREG mode)
          \<and> sftp_close (exists_sftp env) = None)"
  by (auto simp: remote_file_exists_def stat_is_regular_def Let_def case_prod_beta
           split: option.splits sum.splits if_splits)

lemma S_ISREG_examples: "S_ISREG 33188" "\<not> S_ISREG 16877" "\<not> S_ISREG 41471"
  by (simp_all add: S_ISREG_def)

text \<open>
  Claim C4. \<open>remote_file_exists\<close> never raises, and it returns \<open>True\<close> exactly when the
  session has a client, the sub-channel opens, \<open>stat\<close> answers with a mode that is a
  regular file, and the sub-channel closes; so it returns \<open>False\<close> for a missing path
  (\<open>stat\<close> raises \<open>IOError\<close>), for a directory or another entry that is not a regular
  file, and for every other error of \<open>stat\<close> or of the sub-channel.
\<close>

theorem remote_file_exists_total:
  "fst (remote_file_exists env remote_path s) =
     Inr (ssh_client s \<noteq> None \<and> sftp_open (exists_sftp env) = None
          \<and> (\<exists>attrs mode. sftp_stat (exists_sftp env) = Inr attrs
                \<and> st_mode attrs = Some mode \<and> S_ISREG mode)
          \<and> sftp_close (exists_sftp env) = None)"
proof (cases "fst (remote_file_exists env remote_path s)")
  case (Inl e)
  then show ?thesis
    by (simp add: remote_file_exists_def case_prod_beta Let_def split: option.splits sum.splits)
next
  case (Inr b)
  then show ?thesis using remote_file_exists_value[of env remote_path s] by simp
qed

text \<open>
  A regular file (mode \<open>0o100644\<close>), a directory (mode \<open>0o040755\<close>), a missing path,
  a \<open>stat\<close> that fails otherwise, and a session without a client.
\<close>

theorem remote_file_exists_total_witness:
  "fst (remote_file_exists quiet_env ''/home/pi/a.jpg'' connected3) = Inr True
   \<and> fst (remote_file_exists (quiet_env\<lparr>exists_sftp := directory_sftp\<rparr>) ''/home/pi'' connected3)
       = Inr False
   \<and> fst (remote_file_exists (quiet_env\<lparr>exists_sftp := missing_sftp\<rparr>) ''/home/pi/b.jpg''
            connected3) = Inr False
   \<and> fst (remote_file_exists (quiet_env\<lparr>exists_sftp := broken_sftp\<rparr>) ''/home/pi/a.jpg''
            connected3) = Inr False
   \<and> fst (remote_file_exists quiet_env ''/home/pi/a.jpg'' pi3) = Inr False"
  using remote_file_exists_total[of quiet_env "''/home/pi/a.jpg''" connected3]
        remote_file_exists_total[of "quiet_env\<lparr>exists_sftp := directory_sftp\<rparr>" "''/home/pi''"
          connected3]
        remote_file_exists_total[of "quiet_env\<lparr>exists_sftp := missing_sftp\<rparr>"
          "''/home/pi/b.jpg''" connected3]
        remote_file_exists_total[of "quiet_env\<lparr>exists_sftp := broken_sftp\<rparr>"
          "''/home/pi/a.jpg''" connected3]
        remote_file_exists_total[of quiet_env "''/home/pi/a.jpg''" pi3]
  by (simp add: quiet_env_def quiet_sftp_def directory_sftp_def missing_sftp_def broken_sftp_def
        connected3_def pi3_def SSHDownloader_init_def S_ISREG_def)

section \<open>\<open>download_file\<close>: the precondition\<close>

text \<open>
  Claim C5. When \<open>remote_file_exists\<close> is false, \<open>download_file\<close> returns \<open>False\<close>
  after the existence check and one log record: no iteration of the loop, no further
  stat, no transfer, no change of the local files.
\<close>

theorem download_file_fails_fast:
  assumes "fst (remote_file_exists env remote_path s) = Inr False"
  shows "download_file env remote_path local_path s =
           (Inr False, logger ERROR (Remote_file_does_not_exist remote_path)
                         (snd (remote_file_exists env remote_path s)))
         \<and> download_attempts (trace (snd (download_file env remote_path local_path s))) =
             download_attempts (trace s)
         \<and> transfers (trace (snd (download_file env remote_path local_path s))) =
             transfers (trace s)
         \<and> stats (trace (snd (download_file env remote_path local_path s))) =
             stats (trace (snd (remote_file_exists env remote_path s)))
         \<and> local_files (snd (download_file env remote_path local_path s)) = local_files s"
proof -
  have eq: "download_file env remote_path local_path s =
           (Inr False, logger ERROR (Remote_file_does_not_exist remote_path)
                         (snd (remote_file_exists env remote_path s)))"
    using assms by (simp add: download_file_def case_prod_beta)
  show ?thesis unfolding eq by simp
qed

text \<open>A path that is missing on the remote side.\<close>

theorem download_file_fails_fast_witness:
  "fst (remote_file_exists (quiet_env\<lparr>exists_sftp := missing_sftp\<rparr>) ''/home/pi/b.jpg''
          connected3) = Inr False
   \<and> fst (download_file (quiet_env\<lparr>exists_sftp := missing_sftp\<rparr>) ''/home/pi/b.jpg'' ''b.jpg''
            connected3) = Inr False
   \<and> transfers (trace (snd (download_file (quiet_env\<lparr>exists_sftp := missing_sftp\<rparr>)
                               ''/home/pi/b.jpg'' ''b.jpg'' connected3))) = 0
   \<and> download_attempts (trace (snd (download_file (quiet_env\<lparr>exists_sftp := missing_sftp\<rparr>)
                               ''/home/pi/b.jpg'' ''b.jpg'' connected3))) = 0"
proof -
  have h: "fst (remote_file_exists (quiet_env\<lparr>exists_sftp := missing_sftp\<rparr>) ''/home/pi/b.jpg''
          connected3) = Inr False"
    by (simp add: remote_file_exists_value quiet_env_def missing_sftp_def quiet_sftp_def)
  show ?thesis
    using h download_file_fails_fast[OF h, of "''b.jpg''"]
    by (simp add: connected3_def pi3_def SSHDownloader_init_def)
qed

lemma download_file_enters_loop:
  assumes "fst (remote_file_exists env rp s) = Inr True"
  shows "download_file env rp lp s =
           download_loop env rp lp [1..max_retries s] (snd (remote_file_exists env rp s))"
    and "\<exists>h. ssh_client (snd (remote_file_exists env rp s)) = Some h"
proof -
  show "download_file env rp lp s =
           download_loop env rp lp [1..max_retries s] (snd (remote_file_exists env rp s))"
    using assms by (simp add: download_file_def case_prod_beta)
  have "ssh_client s \<noteq> None" using assms by (simp add: remote_file_exists_value)
  then show "\<exists>h. ssh_client (snd (remote_file_exists env rp s)) = Some h" by auto
qed

section \<open>\<open>download_file\<close>: the attempts\<close>

lemma stat_remote_size_fields [simp]:
  "max_retries (snd (stat_remote_size sftp h rp s)) = max_retries s"
  "retry_delay (snd (stat_remote_size sftp h rp s)) = retry_delay s"
  "ssh_client (snd (stat_remote_size sftp h rp s)) = ssh_client s"
  "local_files (snd (stat_remote_size sftp h rp s)) = local_files s"
  by (simp_all add: stat_remote_size_def Let_def split: option.splits sum.splits)

lemma stat_remote_size_value:
  "fst (stat_remote_size sftp h rp s) =
     (case sftp_open sftp of
        Some e \<Rightarrow> Inl e
      | None \<Rightarrow>
          (case sftp_stat sftp of
             Inl e \<Rightarrow> Inl e
           | Inr file_stat \<Rightarrow>
               (case sftp_close sftp of Some e \<Rightarrow> Inl e | None \<Rightarrow> Inr (st_size file_stat))))"
  by (simp add: stat_remote_size_def Let_def split: option.splits sum.splits)

lemma scp_get_fields [simp]:
  "max_retries (snd (scp_get scp h rp lp s)) = max_retries s"
  "retry_delay (snd (scp_get scp h rp lp s)) = retry_delay s"
  "ssh_client (snd (scp_get scp h rp lp s)) = ssh_client s"
  "local_files (snd (scp_get scp h rp lp s)) lp = scp_local scp"
  "fst (scp_get scp h rp lp s) = (case scp_error scp of Some e \<Rightarrow> Inl e | None \<Rightarrow> Inr ())"
  by (simp_all add: scp_get_def Let_def split: option.splits)

lemma verify_local_fields [simp]:
  "max_retries (snd (verify_local rs lp s)) = max_retries s"
  "retry_delay (snd (verify_local rs lp s)) = retry_delay s"
  "ssh_client (snd (verify_local rs lp s)) = ssh_client s"
  by (simp_all add: verify_local_def Let_def split: option.splits)

lemma verify_local_value:
  "fst (verify_local rs lp s) = (local_files s lp \<noteq> None \<and> local_files s lp = rs)"
  by (auto simp: verify_local_def Let_def split: option.splits)

lemma verify_local_removes:
  "\<not> fst (verify_local rs lp s) \<Longrightarrow> local_files (snd (verify_local rs lp s)) lp = None"
  by (auto simp: verify_local_def Let_def split: option.splits if_splits)

lemma verify_local_keeps:
  "fst (verify_local rs lp s) \<Longrightarrow>
     local_files (snd (verify_local rs lp s)) lp = local_files s lp"
  by (auto simp: verify_local_def Let_def split: option.splits if_splits)

lemma download_attempt_fields [simp]:
  "max_retries (snd (download_attempt env rp lp a s)) = max_retries s"
  "retry_delay (snd (download_attempt env rp lp a s)) = retry_delay s"
  "ssh_client (snd (download_attempt env rp lp a s)) = ssh_client s"
  by (simp_all add: download_attempt_def Let_def case_prod_beta
        split: option.splits sum.splits bool.splits)

lemma download_attempt_value:
  assumes "ssh_client s = Some h"
  shows "fst (download_attempt env rp lp a s) =
           (case attempt_kind env a of
              Verified \<Rightarrow> Inr (Some True)
            | Verification_failed \<Rightarrow> if a = max_retries s then Inr (Some False) else Inr None
            | Raises e \<Rightarrow> Inl e)"
  using assms
  by (simp add: download_attempt_def attempt_kind_def Let_def case_prod_beta
        stat_remote_size_value verify_local_value
        split: option.splits sum.splits bool.splits)

lemma download_attempt_local:
  assumes "ssh_client s = Some h" and "attempt_kind env a = Verification_failed"
  shows "local_files (snd (download_attempt env rp lp a s)) lp = None"
proof -
  let ?s1 = "logger INFO (Attempting_download a rp lp) s"
  let ?R = "stat_remote_size (attempt_sftp env a) h rp ?s1"
  from assms(2) obtain rs where rs: "fst ?R = Inr rs"
    by (auto simp: attempt_kind_def stat_remote_size_value split: option.splits sum.splits)
  let ?G = "scp_get (attempt_scp env a) h rp lp (snd ?R)"
  from assms(2) have g: "fst ?G = Inr ()"
    by (auto simp: attempt_kind_def split: option.splits sum.splits)
  let ?V = "verify_local rs lp (snd ?G)"
  from assms(2) rs have v: "\<not> fst ?V"
    by (auto simp: attempt_kind_def stat_remote_size_value verify_local_value
          split: option.splits sum.splits if_splits)
  have "local_files (snd (download_attempt env rp lp a s)) lp = local_files (snd ?V) lp"
    using assms(1) rs g v
    by (simp add: download_attempt_def Let_def case_prod_beta split: bool.splits)
  then show ?thesis using verify_local_removes[OF v] by simp
qed

text \<open>An attempt that neither passes the verification nor is the last one is retried.\<close>

lemma download_loop_step:
  assumes "ssh_client s = Some h" and "attempt_kind env a \<noteq> Verified" and "a \<noteq> max_retries s"
  shows "\<exists>s'. download_loop env rp lp (a # rest) s = download_loop env rp lp rest s'
              \<and> ssh_client s' = ssh_client s \<and> max_retries s' = max_retries s"
proof (cases "attempt_kind env a")
  case Verified
  with assms show ?thesis by simp
next
  case Verification_failed
  then have "fst (download_attempt env rp lp a s) = Inr None"
    using download_attempt_value[OF assms(1), of env rp lp a] assms(3) by simp
  then have "download_loop env rp lp (a # rest) s =
               download_loop env rp lp rest (snd (download_attempt env rp lp a s))"
    by (simp add: case_prod_beta)
  then show ?thesis by (intro exI[of _ "snd (download_attempt env rp lp a s)"]) simp
next
  case (Raises e)
  then have v: "fst (download_attempt env rp lp a s) = Inl e"
    using download_attempt_value[OF assms(1), of env rp lp a] by simp
  let ?s2 = "if is_SCPException e
             then logger ERROR (SCP_download_failed a e) (snd (download_attempt env rp lp a s))
             else logger ERROR (Download_failed a e) (snd (download_attempt env rp lp a s))"
  have "download_loop env rp lp (a # rest) s = download_loop env rp lp rest (sleep ?s2)"
    using v assms(3) by (simp add: case_prod_beta Let_def)
  then show ?thesis by (intro exI[of _ "sleep ?s2"]) simp
qed

text \<open>An attempt that passes the verification, or the last one, ends the loop.\<close>

lemma download_loop_last:
  assumes "ssh_client s = Some h" and "attempt_kind env k = Verified \<or> k = max_retries s"
  shows "fst (download_loop env rp lp (k # post) s) =
           (case attempt_kind env k of
              Verified \<Rightarrow> Inr True | Verification_failed \<Rightarrow> Inr False | Raises e \<Rightarrow> Inl e)"
    and "attempt_kind env k = Verification_failed \<Longrightarrow>
           local_files (snd (download_loop env rp lp (k # post) s)) lp = None"
proof -
  note v = download_attempt_value[OF assms(1), of env rp lp k]
  show "fst (download_loop env rp lp (k # post) s) =
           (case attempt_kind env k of
              Verified \<Rightarrow> Inr True | Verification_failed \<Rightarrow> Inr False | Raises e \<Rightarrow> Inl e)"
    using v assms(2)
    by (cases "attempt_kind env k") (auto simp: case_prod_beta Let_def)
  assume f: "attempt_kind env k = Verification_failed"
  then have "k = max_retries s" using assms(2) by simp
  then have "snd (download_loop env rp lp (k # post) s) = snd (download_attempt env rp lp k s)"
    using v f by (simp add: case_prod_beta)
  then show "local_files (snd (download_loop env rp lp (k # post) s)) lp = None"
    using download_attempt_local[OF assms(1) f] by simp
qed


section \<open>\<open>download_file\<close>: how a call ends when its retries are used up\<close>



section \<open>\<open>download_file\<close>: what is left at the local path\<close>

text \<open>
  Whenever the loop of \<open>download_file\<close> ends with \<open>False\<close> after at least one
  attempt, nothing is left at the local path: the last attempt found no file there,
  or it removed the file it found (line 155).
\<close>

lemma download_loop_false_no_file:
  assumes "ssh_client s = Some h" and "as \<noteq> []" and "last as = max_retries s"
      and "max_retries s \<notin> set (butlast as)"
      and "fst (download_loop env rp lp as s) = Inr False"
  shows "local_files (snd (download_loop env rp lp as s)) lp = None"
  using assms
proof (induction as arbitrary: s)
  case Nil
  then show ?case by simp
next
  case (Cons a rest)
  show ?case
  proof (cases "attempt_kind env a = Verified \<or> a = max_retries s")
    case True
    note last = download_loop_last[OF Cons.prems(1) True, of rp lp rest]
    from last(1) Cons.prems(5) have "attempt_kind env a = Verification_failed"
      by (cases "attempt_kind env a") (simp_all del: download_loop.simps)
    then show ?thesis by (rule last(2))
  next
    case False
    then have rest: "rest \<noteq> []" using Cons.prems(3) by auto
    obtain s' where s': "download_loop env rp lp (a # rest) s = download_loop env rp lp rest s'"
        "ssh_client s' = ssh_client s" "max_retries s' = max_retries s"
      using download_loop_step[of s h env a rp lp rest] Cons.prems(1) False by auto
    have "local_files (snd (download_loop env rp lp rest s')) lp = None"
    proof (rule Cons.IH)
      show "ssh_client s' = Some h" using s' Cons.prems(1) by simp
      show "rest \<noteq> []" by (rule rest)
      show "last rest = max_retries s'" using rest Cons.prems(3) s' by simp
      show "max_retries s' \<notin> set (butlast rest)" using rest Cons.prems(4) s' by simp
      show "fst (download_loop env rp lp rest s') = Inr False"
        using Cons.prems(5) s'(1) by (simp del: download_loop.simps)
    qed
    then show ?thesis using s'(1) by (simp del: download_loop.simps)
  qed
qed

lemma download_file_false_no_file:
  assumes "fst (remote_file_exists env rp s) = Inr True" and "1 \<le> max_retries s"
      and "fst (download_file env rp lp s) = Inr False"
  shows "local_files (snd (download_file env rp lp s)) lp = None"
proof -
  let ?s1 = "snd (remote_file_exists env rp s)"
  obtain h where h: "ssh_client ?s1 = Some h"
    using download_file_enters_loop(2)[OF assms(1)] by blast
  have eq: "download_file env rp lp s = download_loop env rp lp [1..max_retries s] ?s1"
    by (rule download_file_enters_loop(1)[OF assms(1)])
  have attempts: "[1..max_retries s] = [1..max_retries s - 1] @ [max_retries s]"
    using assms(2) by (simp add: upto_rec2)
  show ?thesis
    unfolding eq
  proof (rule download_loop_false_no_file[OF h])
    show "[1..max_retries s] \<noteq> []" using assms(2) by simp
    show "last [1..max_retries s] = max_retries ?s1" by (simp add: attempts)
    show "max_retries ?s1 \<notin> set (butlast [1..max_retries s])" by (simp add: attempts)
    show "fst (download_loop env rp lp [1..max_retries s] ?s1) = Inr False"
      using assms(3) eq by simp
  qed
qed

text \<open>
  Claim C6, at a remote file of 100 bytes whose transfer is cut after 40 bytes on each
  of the three attempts. The call fails, by raising the exception of the last
  transfer, and the 40 bytes are still at the local path: only the branch of the size
  mismatch removes the file (line 155), the handlers of lines 163-172 do not.
\<close>

theorem download_file_keeps_partial_file:
  "fst (download_file (quiet_env\<lparr>attempt_scp := (\<lambda>a. cut_scp)\<rparr>) ''/home/pi/a.jpg'' ''a.jpg''
          connected3) = Inl transfer_cut
   \<and> local_files (snd (download_file (quiet_env\<lparr>attempt_scp := (\<lambda>a. cut_scp)\<rparr>)
                          ''/home/pi/a.jpg'' ''a.jpg'' connected3)) ''a.jpg'' = Some 40"
  by (simp add: download_file_def remote_file_exists_def stat_is_regular_def
        download_attempt_def stat_remote_size_def scp_get_def
        quiet_env_def quiet_sftp_def cut_scp_def connected3_def pi3_def SSHDownloader_init_def
        S_ISREG_def Let_def emit_def logger_def sleep_def transfer_cut_def is_SCPException_def
        upto.simps)

section \<open>The class of the exception raised when the retries are used up\<close>





section \<open>No retries at all\<close>

text \<open>
  Claim C10. With \<open>max_retries = 0\<close> the three loops run over the empty list:
  \<open>connect\<close> returns and changes nothing (no client is created), \<open>execute_command\<close>
  returns \<open>None\<close> and changes nothing (no command is executed), and \<open>download_file\<close>
  returns \<open>False\<close> with no iteration and no transfer. None raises.
\<close>

theorem zero_retries_fall_through:
  assumes "max_retries s = 0"
  shows "connect env s = (Inr (), s)
         \<and> execute_command env command s = (Inr None, s)
         \<and> fst (download_file env remote_path local_path s) = Inr False
         \<and> download_attempts (trace (snd (download_file env remote_path local_path s))) =
             download_attempts (trace s)
         \<and> transfers (trace (snd (download_file env remote_path local_path s))) =
             transfers (trace s)
         \<and> local_files (snd (download_file env remote_path local_path s)) = local_files s
         \<and> ssh_client (snd (download_file env remote_path local_path s)) = ssh_client s"
proof -
  obtain b where b: "fst (remote_file_exists env remote_path s) = Inr b"
    by (simp add: remote_file_exists_value)
  have "download_file env remote_path local_path s =
          (Inr False, if b then snd (remote_file_exists env remote_path s)
                      else logger ERROR (Remote_file_does_not_exist remote_path)
                             (snd (remote_file_exists env remote_path s)))"
    using assms b by (simp add: download_file_def case_prod_beta)
  then show ?thesis
    using assms by (simp add: connect_def execute_command_def)
qed

text \<open>Even a host that refuses every connection raises nothing.\<close>

theorem zero_retries_fall_through_witness:
  "max_retries (pi3\<lparr>max_retries := 0\<rparr>) = 0
   \<and> connect (quiet_env\<lparr>connect_outcome := (\<lambda>a. Some refused)\<rparr>) (pi3\<lparr>max_retries := 0\<rparr>)
       = (Inr (), pi3\<lparr>max_retries := 0\<rparr>)
   \<and> ssh_client (pi3\<lparr>max_retries := 0\<rparr>) = None
   \<and> execute_command quiet_env ''echo ok'' (connected3\<lparr>max_retries := 0\<rparr>)
       = (Inr None, connected3\<lparr>max_retries := 0\<rparr>)
   \<and> fst (download_file quiet_env ''/home/pi/a.jpg'' ''a.jpg'' (connected3\<lparr>max_retries := 0\<rparr>))
       = Inr False
   \<and> transfers (trace (snd (download_file quiet_env ''/home/pi/a.jpg'' ''a.jpg''
                               (connected3\<lparr>max_retries := 0\<rparr>)))) = 0"
proof -
  have h: "max_retries (pi3\<lparr>max_retries := 0\<rparr>) = 0" by simp
  have h': "max_retries (connected3\<lparr>max_retries := 0\<rparr>) = 0" by simp
  show ?thesis
    using zero_retries_fall_through[OF h, of "quiet_env\<lparr>connect_outcome := (\<lambda>a. Some refused)\<rparr>"]
          zero_retries_fall_through[OF h', of quiet_env "''echo ok''" "''/home/pi/a.jpg''" "''a.jpg''"]
    by (simp add: connected3_def pi3_def SSHDownloader_init_def)
qed

end
